theory Spec2Isabelle
  imports
    Main
    "HOL-Library.Char_ord"
    "HOL-Library.List_Lexorder"
    "HOL-Library.Sublist"
    "HOL-Library.AList"
begin

section \<open>Restoring CRM or Sales data from a backup archive\<close>

text \<open>
  A shallow embedding of \<^verbatim>\<open>restore_from_backup.py\<close>. The script is file-system and
  archive I/O, so the model has three layers:
  \<^item> path values as \<^verbatim>\<open>pathlib\<close> keeps them (the tuple \<^verbatim>\<open>parts\<close>), with the
    POSIX parsing and printing rules;
  \<^item> a file system: a finite table from absolute paths to nodes, with the walk the operating
    system makes along a path and the library calls the script makes (\<^verbatim>\<open>exists\<close>,
    \<^verbatim>\<open>mkdir\<close>, \<^verbatim>\<open>shutil.copy2\<close>, \<^verbatim>\<open>glob\<close>, \<^verbatim>\<open>rglob\<close>, \<^verbatim>\<open>extractall\<close>, the
    temporary directory) as functions on it;
  \<^item> the script's own functions, one definition per source function, threading a world
    (file system, standard output, standard error) and returning either the raised error or
    the value.
  The model has no symbolic links and no permissions; the script's two imports from the
  same repository, \<^verbatim>\<open>get_storage_dir\<close> and \<^verbatim>\<open>load_config\<close>, are not part of the
  source at hand and enter as parameters of the platform.
\<close>

subsection \<open>Archives and app detection\<close>

type_synonym bytes = string

record member =
  filename :: string
  payload :: bytes

type_synonym archive = "member list"

definition namelist :: "archive \<Rightarrow> string list" where
  "namelist a = map filename a"

definition CRM_EXPORT_MARKER :: string where
  "CRM_EXPORT_MARKER = ''exports/ps_crm.sql''"

definition SALES_EXPORT_MARKER :: string where
  "SALES_EXPORT_MARKER = ''exports/ps_sales.sql''"

definition detect_app :: "archive \<Rightarrow> string option" where
  "detect_app a =
     (let names = set (namelist a) in
      if CRM_EXPORT_MARKER \<in> names then Some ''crm''
      else if SALES_EXPORT_MARKER \<in> names then Some ''sales''
      else None)"

text \<open>
  \<^verbatim>\<open>args.app or _detect_app(archive)\<close>: Python's \<^verbatim>\<open>or\<close> yields its left operand when
  that is truthy (a string other than the empty one) and evaluates the right one otherwise.
\<close>

definition resolve_app :: "string option \<Rightarrow> archive \<Rightarrow> string option" where
  "resolve_app given a =
     (case given of
        Some s \<Rightarrow> if s \<noteq> '''' then Some s else detect_app a
      | None \<Rightarrow> detect_app a)"

subsection \<open>Paths\<close>

text \<open>
  A path is the tuple \<^verbatim>\<open>parts\<close> of a \<^verbatim>\<open>pathlib.PosixPath\<close>: the components in
  order, with the root (\<^verbatim>\<open>/\<close>, or \<^verbatim>\<open>//\<close> for exactly two leading slashes) as the
  first part of an absolute path. The empty tuple is the path \<^verbatim>\<open>.\<close>.
\<close>

type_synonym path = "string list"

text \<open>\<^verbatim>\<open>s.split(sep)\<close> for a one-character separator.\<close>

fun split_on :: "char \<Rightarrow> string \<Rightarrow> string list" where
  "split_on c [] = [[]]"
| "split_on c (x # xs) =
     (if x = c then [] # split_on c xs
      else (case split_on c xs of
              w # ws \<Rightarrow> (x # w) # ws
            | [] \<Rightarrow> [[x]]))"

text \<open>\<^verbatim>\<open>'/'.join(parts)\<close>.\<close>

fun join_sep :: "string list \<Rightarrow> string" where
  "join_sep [] = []"
| "join_sep [x] = x"
| "join_sep (x # y # zs) = x @ ''/'' @ join_sep (y # zs)"

definition root_of :: "string \<Rightarrow> string list" where
  "root_of s =
     (if take 1 s \<noteq> ''/'' then []
      else if take 2 s = ''//'' \<and> take 3 s \<noteq> ''///'' then [''//'']
      else [''/''])"

text \<open>\<^verbatim>\<open>Path(s)\<close>: split at slashes, drop empty and \<^verbatim>\<open>.\<close> components, keep the root.\<close>

definition Path :: "string \<Rightarrow> path" where
  "Path s = root_of s @ filter (\<lambda>c. c \<noteq> '''' \<and> c \<noteq> ''.'') (split_on CHR ''/'' s)"

definition is_rooted :: "path \<Rightarrow> bool" where
  "is_rooted p \<longleftrightarrow> p \<noteq> [] \<and> (hd p = ''/'' \<or> hd p = ''//'')"

text \<open>\<^verbatim>\<open>str(p)\<close>.\<close>

definition str_path :: "path \<Rightarrow> string" where
  "str_path p =
     (if p = [] then ''.''
      else if is_rooted p then hd p @ join_sep (tl p)
      else join_sep p)"

text \<open>\<^verbatim>\<open>p / q\<close>: an absolute right operand replaces the left one.\<close>

definition joinpath :: "path \<Rightarrow> path \<Rightarrow> path" where
  "joinpath p q = (if is_rooted q then q else p @ q)"

text \<open>\<^verbatim>\<open>p.name\<close>: the last component, empty for the root and for \<^verbatim>\<open>.\<close>.\<close>

definition path_name :: "path \<Rightarrow> string" where
  "path_name p = (if p = [] \<or> (is_rooted p \<and> length p = 1) then '''' else last p)"

text \<open>\<^verbatim>\<open>p.parent\<close>: the root and \<^verbatim>\<open>.\<close> are their own parents.\<close>

definition parent :: "path \<Rightarrow> path" where
  "parent p = (if p = [] \<or> (is_rooted p \<and> length p = 1) then p else butlast p)"

text \<open>\<^verbatim>\<open>name.rfind('.')\<close>, with \<open>None\<close> for Python's \<open>-1\<close>.\<close>

definition rfind_dot :: "string \<Rightarrow> nat option" where
  "rfind_dot n =
     (if CHR ''.'' \<in> set n
      then Some (length n - 1 - length (takeWhile (\<lambda>c. c \<noteq> CHR ''.'') (rev n)))
      else None)"

text \<open>\<^verbatim>\<open>p.suffix\<close>: from the last dot of the name, unless that dot is first or last.\<close>

definition path_suffix :: "path \<Rightarrow> string" where
  "path_suffix p =
     (let name = path_name p in
      case rfind_dot name of
        None \<Rightarrow> ''''
      | Some i \<Rightarrow> if 0 < i \<and> i < length name - 1 then drop i name else '''')"

text \<open>
  \<open>OSError\<close> stands for every subclass the file operations raise
  (\<^verbatim>\<open>FileNotFoundError\<close>, \<^verbatim>\<open>FileExistsError\<close>, \<^verbatim>\<open>NotADirectoryError\<close>,
  \<^verbatim>\<open>IsADirectoryError\<close>, \<^verbatim>\<open>shutil.SameFileError\<close>, \<^verbatim>\<open>shutil.SpecialFileError\<close>).
\<close>

datatype error = OSError | RuntimeError | ValueError | BadZipFile | KeyError

text \<open>\<^verbatim>\<open>p.with_suffix(suffix)\<close>, with its three \<^verbatim>\<open>ValueError\<close>s.\<close>

definition with_suffix :: "path \<Rightarrow> string \<Rightarrow> error + path" where
  "with_suffix p suf =
     (if CHR ''/'' \<in> set suf then Inl ValueError
      else if (suf \<noteq> '''' \<and> take 1 suf \<noteq> ''.'') \<or> suf = ''.'' then Inl ValueError
      else let name = path_name p in
        if name = '''' then Inl ValueError
        else let old_suffix = path_suffix p;
                 name' = (if old_suffix = '''' then name @ suf
                          else take (length name - length old_suffix) name @ suf)
             in Inr (butlast p @ [name']))"

subsection \<open>The platform\<close>

text \<open>
  What the script reads from its surroundings and does not change: the environment
  variables, the password database and \<^verbatim>\<open>HOME\<close> behind \<^verbatim>\<open>expanduser\<close>, the working
  directory, the local time, the name \<^verbatim>\<open>mkdtemp\<close> picks, the stamp a newly written file
  gets, and the decoder of \<^verbatim>\<open>zipfile\<close>. \<open>get_storage_dir\<close> is what
  \<^verbatim>\<open>storage_paths.get_storage_dir()\<close> returns and \<open>config_data_dir\<close> is
  \<^verbatim>\<open>ps_sales.load_config().data_dir\<close>; both calls are taken to return without raising and
  without touching the file system.
\<close>

record tm =
  tm_year :: nat
  tm_mon :: nat
  tm_mday :: nat
  tm_hour :: nat
  tm_min :: nat
  tm_sec :: nat

type_synonym meta = nat

record platform =
  environ :: "string \<Rightarrow> string option"
  passwd :: "string \<Rightarrow> string option"
  getcwd :: path
  get_storage_dir :: string
  config_data_dir :: path
  localtime :: tm
  mkdtemp :: path
  fresh_meta :: meta
  read_zip :: "bytes \<Rightarrow> archive option"

text \<open>\<^verbatim>\<open>os.getenv(key, default)\<close>.\<close>

definition getenv :: "platform \<Rightarrow> string \<Rightarrow> string \<Rightarrow> string" where
  "getenv P key dflt = (case environ P key of Some v \<Rightarrow> v | None \<Rightarrow> dflt)"

text \<open>\<^verbatim>\<open>s.rstrip('/')\<close>.\<close>

definition rstrip_sep :: "string \<Rightarrow> string" where
  "rstrip_sep s = rev (dropWhile (\<lambda>c. c = CHR ''/'') (rev s))"

text \<open>
  \<^verbatim>\<open>posixpath.expanduser\<close> on one component that starts with a tilde and holds no slash:
  \<^verbatim>\<open>~\<close> is \<^verbatim>\<open>HOME\<close>, or else the password entry of the current user (looked up under the
  empty name here); \<^verbatim>\<open>~user\<close> is that user's password entry. An unknown user leaves the
  component as it is.
\<close>

definition os_expanduser :: "platform \<Rightarrow> string \<Rightarrow> string" where
  "os_expanduser P s =
     (let userhome =
            (if length s = 1
             then (case environ P ''HOME'' of Some h \<Rightarrow> Some h | None \<Rightarrow> passwd P '''')
             else passwd P (tl s))
      in case userhome of
           None \<Rightarrow> s
         | Some h \<Rightarrow> if rstrip_sep h = '''' then ''/'' else rstrip_sep h)"

text \<open>\<^verbatim>\<open>p.expanduser()\<close>: raises when the home directory cannot be determined.\<close>

definition expanduser :: "platform \<Rightarrow> path \<Rightarrow> error + path" where
  "expanduser P p =
     (if \<not> is_rooted p \<and> p \<noteq> [] \<and> take 1 (hd p) = ''~''
      then (let homedir = os_expanduser P (hd p) in
            if take 1 homedir = ''~'' then Inl RuntimeError
            else Inr (Path homedir @ tl p))
      else Inr p)"

text \<open>\<^verbatim>\<open>time.strftime("%Y%m%d_%H%M%S")\<close> at the platform's local time.\<close>

fun digits :: "nat \<Rightarrow> string" where
  "digits n = (if n < 10 then [''0123456789'' ! n]
               else digits (n div 10) @ [''0123456789'' ! (n mod 10)])"

declare digits.simps [simp del]

definition pad2 :: "nat \<Rightarrow> string" where
  "pad2 n = (if n < 10 then CHR ''0'' # digits n else digits n)"

definition strftime :: "tm \<Rightarrow> string" where
  "strftime t = digits (tm_year t) @ pad2 (tm_mon t) @ pad2 (tm_mday t) @ ''_''
                @ pad2 (tm_hour t) @ pad2 (tm_min t) @ pad2 (tm_sec t)"

subsection \<open>Path resolution for the two apps\<close>

definition crm_paths :: "platform \<Rightarrow> string option \<Rightarrow> error + (path \<times> path)" where
  "crm_paths P data_dir_override =
     (case (case data_dir_override of
              Some s \<Rightarrow> if s \<noteq> '''' then expanduser P (Path s)
                        else Inr (Path (getenv P ''APP_STORAGE_DIR'' (get_storage_dir P)))
            | None \<Rightarrow> Inr (Path (getenv P ''APP_STORAGE_DIR'' (get_storage_dir P))))
      of Inl e \<Rightarrow> Inl e
       | Inr base_dir \<Rightarrow>
           Inr (base_dir,
                Path (getenv P ''DB_PATH'' (str_path (joinpath base_dir (Path ''ps_crm.db''))))))"

definition sales_paths :: "platform \<Rightarrow> string option \<Rightarrow> error + (path \<times> path)" where
  "sales_paths P data_dir_override =
     (case (case data_dir_override of
              Some s \<Rightarrow> if s \<noteq> '''' then expanduser P (Path s) else Inr (config_data_dir P)
            | None \<Rightarrow> Inr (config_data_dir P))
      of Inl e \<Rightarrow> Inl e
       | Inr data_dir \<Rightarrow>
           (let db_url = getenv P ''PS_SALES_DB_URL'' '''';
                pre = ''sqlite:///''
            in Inr (data_dir,
                    if db_url \<noteq> ''''
                    then (if prefix pre db_url then Path (drop (length pre) db_url)
                          else Path db_url)
                    else joinpath data_dir (Path ''ps_sales.db''))))"

subsection \<open>The file system\<close>

text \<open>
  A node is a directory, a regular file with its bytes and the metadata \<^verbatim>\<open>copystat\<close>
  carries over (mode and times, one stamp here), or a FIFO. The file system is a finite table
  from absolute paths (root first, no \<^verbatim>\<open>..\<close>) to nodes. It is read through \<open>lookup\<close> and
  \<open>entries\<close> only, so an association list with a shadowed second entry for a path is the
  same file system as the list without it. There are no symbolic links and no permissions.
\<close>

datatype node = Directory | Regular bytes meta | Fifo

type_synonym fs = "(path \<times> node) list"

definition lookup :: "fs \<Rightarrow> path \<Rightarrow> node option" where
  "lookup t k = map_of t k"

definition entries :: "fs \<Rightarrow> path list" where
  "entries t = remdups (map fst t)"

definition put :: "path \<Rightarrow> node \<Rightarrow> fs \<Rightarrow> fs" where
  "put k n t = AList.update k n t"

definition fs_exists :: "fs \<Rightarrow> path \<Rightarrow> bool" where
  "fs_exists t k \<longleftrightarrow> lookup t k \<noteq> None"

definition fs_is_dir :: "fs \<Rightarrow> path \<Rightarrow> bool" where
  "fs_is_dir t k \<longleftrightarrow> lookup t k = Some Directory"

definition fs_is_file :: "fs \<Rightarrow> path \<Rightarrow> bool" where
  "fs_is_file t k \<longleftrightarrow> (case lookup t k of Some (Regular b m) \<Rightarrow> True | _ \<Rightarrow> False)"

text \<open>The directory an absolute path lies in; the root lies in itself.\<close>

definition dirname :: "path \<Rightarrow> path" where
  "dirname k = (if length k \<le> 1 then k else butlast k)"

text \<open>The limits of Linux on one name and on one path string, in bytes.\<close>

definition NAME_MAX :: nat where
  "NAME_MAX = 255"

definition PATH_MAX :: nat where
  "PATH_MAX = 4096"

definition too_long :: "path \<Rightarrow> bool" where
  "too_long k \<longleftrightarrow> PATH_MAX \<le> length (str_path k) \<or> (k \<noteq> [] \<and> NAME_MAX < length (last k))"

text \<open>
  Making a directory at a place the walk has reached: the place must be free and lie in a
  directory.
\<close>

definition make_dir :: "path \<Rightarrow> fs \<Rightarrow> error + fs" where
  "make_dir k t =
     (if fs_exists t k then Inl OSError
      else if \<not> fs_is_dir t (dirname k) then Inl OSError
      else Inr (put k Directory t))"

text \<open>
  \<^verbatim>\<open>os.mkdir(k)\<close> on an absolute path without \<^verbatim>\<open>..\<close>, as \<^verbatim>\<open>zipfile\<close> and
  \<^verbatim>\<open>tempfile\<close> call it.
\<close>

definition os_mkdir :: "path \<Rightarrow> fs \<Rightarrow> error + fs" where
  "os_mkdir k t = (if too_long k then Inl OSError else make_dir k t)"

text \<open>
  \<^verbatim>\<open>os.makedirs(k)\<close> on an absolute path without \<^verbatim>\<open>..\<close>, as \<^verbatim>\<open>zipfile\<close> calls it:
  when the directory above is missing it is made first, in the same way, and the first
  \<^verbatim>\<open>os.mkdir\<close> that fails ends the call, leaving what was made so far. (The
  \<^verbatim>\<open>FileExistsError\<close> that \<^verbatim>\<open>makedirs\<close> ignores from the call for the directory
  above does not arise: that call is made only when the directory above is missing.)
\<close>

function mkdir_parents :: "path \<Rightarrow> fs \<Rightarrow> (error + unit) \<times> fs" where
  "mkdir_parents k t =
     (if fs_exists t (dirname k) \<or> dirname k = k
      then (case os_mkdir k t of Inl e \<Rightarrow> (Inl e, t) | Inr t' \<Rightarrow> (Inr (), t'))
      else (case mkdir_parents (dirname k) t of
              (Inl e, t1) \<Rightarrow> (Inl e, t1)
            | (Inr u, t1) \<Rightarrow>
                (case os_mkdir k t1 of Inl e \<Rightarrow> (Inl e, t1) | Inr t' \<Rightarrow> (Inr (), t'))))"
  by pat_completeness auto
termination
  by (relation "measure (\<lambda>(k, t). length k)") (auto simp: dirname_def split: if_splits)

declare mkdir_parents.simps [simp del]

text \<open>
  \<^verbatim>\<open>open(k, "wb")\<close> on an absolute path without \<^verbatim>\<open>..\<close>, followed by writing the data:
  the directory above must exist, the path must not be a directory; a new file gets the
  stamp \<open>m\<close>.
\<close>

definition write_file :: "path \<Rightarrow> bytes \<Rightarrow> meta \<Rightarrow> fs \<Rightarrow> error + fs" where
  "write_file k b m t =
     (if too_long k then Inl OSError
      else if \<not> fs_is_dir t (dirname k) then Inl OSError
      else (case lookup t k of
              Some Directory \<Rightarrow> Inl OSError
            | Some Fifo \<Rightarrow> Inl OSError
            | _ \<Rightarrow> Inr (put k (Regular b m) t)))"

text \<open>\<^verbatim>\<open>d.glob("*.db")\<close>: the entries directly in \<open>d\<close> whose name ends in \<^verbatim>\<open>.db\<close>.\<close>

definition glob_db :: "fs \<Rightarrow> path \<Rightarrow> path list" where
  "glob_db t d =
     (if fs_is_dir t d
      then filter (\<lambda>c. c \<noteq> [] \<and> butlast c = d \<and> suffix ''.db'' (last c)) (entries t)
      else [])"

text \<open>
  \<^verbatim>\<open>s.rglob("*")\<close>: every entry below \<open>s\<close>, as a list taken when the call is made.
  (\<^verbatim>\<open>pathlib\<close> scans directory by directory while the caller's loop runs; the two agree as
  long as the loop creates nothing below \<open>s\<close>.)
\<close>

definition rglob_all :: "fs \<Rightarrow> path \<Rightarrow> path list" where
  "rglob_all t s = (if fs_is_dir t s then filter (strict_prefix s) (entries t) else [])"

text \<open>\<^verbatim>\<open>shutil.rmtree(k)\<close>, as the temporary directory's cleanup calls it.\<close>

definition rmtree :: "path \<Rightarrow> fs \<Rightarrow> fs" where
  "rmtree k t = filter (\<lambda>e. \<not> prefix k (fst e)) t"

subsection \<open>Paths given by the user\<close>

text \<open>
  A path that comes from the command line or the environment may be relative and may hold
  \<^verbatim>\<open>..\<close>. The operating system walks it from the root or from the working directory:
  every step starts in a directory, \<^verbatim>\<open>..\<close> steps to the directory above (the root is
  above itself), and a name steps down, unless it is too long. The walk ends at the absolute
  path the last step names, whether or not anything exists there (\<open>Some\<close>); it ends with
  nothing (\<open>None\<close>, the errors \<^verbatim>\<open>ENOENT\<close> and \<^verbatim>\<open>ENOTDIR\<close>) when a step does not start in a
  directory, and with an error (\<^verbatim>\<open>ENAMETOOLONG\<close>) on a name or a path string that is too
  long.
\<close>

fun walk :: "fs \<Rightarrow> path \<Rightarrow> string list \<Rightarrow> error + path option" where
  "walk t cur [] = Inr (Some cur)"
| "walk t cur (c # cs) =
     (if \<not> fs_is_dir t cur then Inr None
      else if c = ''..'' then walk t (dirname cur) cs
      else if NAME_MAX < length c then Inl OSError
      else walk t (cur @ [c]) cs)"

definition locate :: "platform \<Rightarrow> fs \<Rightarrow> path \<Rightarrow> error + path option" where
  "locate P t p =
     (if PATH_MAX \<le> length (str_path p) then Inl OSError
      else if is_rooted p then walk t [''/''] (tl p)
      else walk t (getcwd P) p)"

text \<open>\<^verbatim>\<open>os.stat(p)\<close>: the node, nothing when the path is absent, or another error.\<close>

definition path_stat :: "platform \<Rightarrow> fs \<Rightarrow> path \<Rightarrow> error + node option" where
  "path_stat P t p =
     (case locate P t p of
        Inl e \<Rightarrow> Inl e
      | Inr None \<Rightarrow> Inr None
      | Inr (Some k) \<Rightarrow> Inr (lookup t k))"

text \<open>\<^verbatim>\<open>os.path.isdir(p)\<close>: false on every error.\<close>

definition os_path_isdir :: "platform \<Rightarrow> fs \<Rightarrow> path \<Rightarrow> bool" where
  "os_path_isdir P t p \<longleftrightarrow> path_stat P t p = Inr (Some Directory)"

text \<open>
  \<^verbatim>\<open>os.mkdir(p)\<close> on a user's path, followed by what \<^verbatim>\<open>Path.mkdir\<close> does with
  \<^verbatim>\<open>exist_ok=True\<close> when it fails for another reason than a missing parent: pass if the
  path is a directory. The result is \<open>None\<close> when the parent is missing.
\<close>

definition mkdir_exist_ok :: "platform \<Rightarrow> path \<Rightarrow> fs \<Rightarrow> (error + fs) option" where
  "mkdir_exist_ok P p t =
     (case locate P t p of
        Inl e \<Rightarrow> Some (Inl e)
      | Inr None \<Rightarrow> None
      | Inr (Some k) \<Rightarrow>
          (case make_dir k t of
             Inr t' \<Rightarrow> Some (Inr t')
           | Inl e \<Rightarrow> if fs_is_dir t k then Some (Inr t) else Some (Inl e)))"

text \<open>
  \<^verbatim>\<open>p.mkdir(parents=True, exist_ok=True)\<close>, as \<^verbatim>\<open>pathlib\<close> writes it: \<^verbatim>\<open>os.mkdir\<close>
  first; when the parent is missing, make \<^verbatim>\<open>p.parent\<close> the same way and then the
  directory itself, without a second try for its parent. What was made stays when a later
  step raises.
\<close>

function Path_mkdir :: "platform \<Rightarrow> path \<Rightarrow> fs \<Rightarrow> (error + unit) \<times> fs" where
  "Path_mkdir P p t =
     (case mkdir_exist_ok P p t of
        Some (Inl e) \<Rightarrow> (Inl e, t)
      | Some (Inr t') \<Rightarrow> (Inr (), t')
      | None \<Rightarrow>
          if parent p = p then (Inl OSError, t)
          else (case Path_mkdir P (parent p) t of
                  (Inl e, t1) \<Rightarrow> (Inl e, t1)
                | (Inr u, t1) \<Rightarrow>
                    (case mkdir_exist_ok P p t1 of
                       Some (Inr t') \<Rightarrow> (Inr (), t')
                     | Some (Inl e) \<Rightarrow> (Inl e, t1)
                     | None \<Rightarrow> (Inl OSError, t1))))"
  by pat_completeness auto
termination
  by (relation "measure (\<lambda>(P, p, t). length p)") (auto simp: parent_def split: if_splits)

declare Path_mkdir.simps [simp del]

text \<open>
  \<^verbatim>\<open>shutil.copy2(src, dst)\<close>: a destination that is a directory stands for the file of
  the source's name inside it; the source must be a regular file other than the destination;
  the destination receives the source's bytes and, through \<^verbatim>\<open>copystat\<close>, its metadata.
\<close>

definition copy2 :: "platform \<Rightarrow> path \<Rightarrow> path \<Rightarrow> fs \<Rightarrow> error + fs" where
  "copy2 P src dst t =
     (let dst' = (if os_path_isdir P t dst then dst @ [path_name src] else dst) in
      case locate P t src of
        Inr (Some ks) \<Rightarrow>
          (case lookup t ks of
             Some (Regular b m) \<Rightarrow>
               (case locate P t dst' of
                  Inr (Some kd) \<Rightarrow>
                    if kd = ks then Inl OSError
                    else (case lookup t kd of
                            Some Directory \<Rightarrow> Inl OSError
                          | Some Fifo \<Rightarrow> Inl OSError
                          | _ \<Rightarrow> Inr (put kd (Regular b m) t))
                | _ \<Rightarrow> Inl OSError)
           | _ \<Rightarrow> Inl OSError)
      | _ \<Rightarrow> Inl OSError)"

subsection \<open>The world and its actions\<close>

text \<open>Every \<^verbatim>\<open>print\<close> of the script is one message, with the values it interpolates.\<close>

datatype message =
    ArchiveNotFound path
  | CannotDetectApp
  | UsageError
  | HelpText
  | ReportApp string
  | ReportDataDir path
  | ReportDatabasePath path
  | ReportStorageCount nat
  | ReportDatabaseFiles "string list"
  | BackedUp path
  | RestoredDatabase path
  | NoDatabase
  | RestoredStorage nat path
  | NoStorage

record world =
  files :: fs
  stdout :: "message list"
  stderr :: "message list"

text \<open>
  An action runs in a world and ends either by raising (\<open>Inl\<close>) or by returning a value
  (\<open>Inr\<close>); either way it leaves the world it has reached.
\<close>

type_synonym 'a action = "world \<Rightarrow> (error + 'a) \<times> world"

definition ret :: "'a \<Rightarrow> 'a action" where
  "ret x w = (Inr x, w)"

definition throw :: "error \<Rightarrow> 'a action" where
  "throw e w = (Inl e, w)"

definition and_then :: "'a action \<Rightarrow> ('a \<Rightarrow> 'b action) \<Rightarrow> 'b action" where
  "and_then m f w = (case m w of (Inl e, w') \<Rightarrow> (Inl e, w') | (Inr x, w') \<Rightarrow> f x w')"

text \<open>A file operation that changes nothing when it fails, and one that may.\<close>

definition on_files :: "(fs \<Rightarrow> error + fs) \<Rightarrow> unit action" where
  "on_files f w =
     (case f (files w) of
        Inl e \<Rightarrow> (Inl e, w)
      | Inr t \<Rightarrow> (Inr (), w\<lparr>files := t\<rparr>))"

definition changing :: "(fs \<Rightarrow> (error + unit) \<times> fs) \<Rightarrow> unit action" where
  "changing f w = (case f (files w) of (r, t) \<Rightarrow> (r, w\<lparr>files := t\<rparr>))"

definition pure :: "error + 'a \<Rightarrow> 'a action" where
  "pure r w = (r, w)"

definition print :: "message \<Rightarrow> unit action" where
  "print m w = (Inr (), w\<lparr>stdout := stdout w @ [m]\<rparr>)"

definition eprint :: "message \<Rightarrow> unit action" where
  "eprint m w = (Inr (), w\<lparr>stderr := stderr w @ [m]\<rparr>)"

text \<open>
  \<^verbatim>\<open>p.exists()\<close> of \<^verbatim>\<open>pathlib\<close> (Python 3.11): false when the path is absent, and the
  error itself when \<^verbatim>\<open>stat\<close> fails in another way.
\<close>

definition path_exists :: "platform \<Rightarrow> path \<Rightarrow> bool action" where
  "path_exists P p w =
     (case path_stat P (files w) p of
        Inl e \<Rightarrow> (Inl e, w)
      | Inr n \<Rightarrow> (Inr (n \<noteq> None), w))"

subsection \<open>Extraction into a temporary directory\<close>

text \<open>
  \<^verbatim>\<open>ZipFile.getinfo(name)\<close>: of several members with one name the last one is
  registered.
\<close>

definition getinfo :: "archive \<Rightarrow> string \<Rightarrow> member option" where
  "getinfo a n =
     (case filter (\<lambda>m. filename m = n) a of [] \<Rightarrow> None | m # ms \<Rightarrow> Some (last (m # ms)))"

text \<open>
  \<^verbatim>\<open>ZipFile._extract_member\<close>: the member's name is split at slashes and the empty,
  \<^verbatim>\<open>.\<close> and \<^verbatim>\<open>..\<close> components are dropped, so that every member lands below the target
  directory; the directories above are made; a name ending in a slash is a directory, any
  other member is written as a new file.
\<close>

definition arcname :: "string \<Rightarrow> path" where
  "arcname n =
     filter (\<lambda>x. x \<noteq> '''' \<and> x \<noteq> ''.'' \<and> x \<noteq> ''..'') (split_on CHR ''/'' n)"

definition extract_member :: "platform \<Rightarrow> path \<Rightarrow> member \<Rightarrow> unit action" where
  "extract_member P targetdir m =
     (let is_dir = suffix ''/'' (filename m);
          targetpath = targetdir @ arcname (filename m);
          upperdirs = dirname targetpath
      in if arcname (filename m) = [] \<and> \<not> is_dir then throw ValueError
         else and_then
                (\<lambda>w. if fs_exists (files w) upperdirs then ret () w
                     else changing (mkdir_parents upperdirs) w)
                (\<lambda>_. if is_dir
                      then (\<lambda>w. if fs_is_dir (files w) targetpath then ret () w
                                else on_files (os_mkdir targetpath) w)
                      else on_files (write_file targetpath (payload m) (fresh_meta P))))"

text \<open>\<^verbatim>\<open>ZipFile.extractall(path)\<close>: every name of \<^verbatim>\<open>namelist()\<close> in order.\<close>

fun extract_names :: "platform \<Rightarrow> path \<Rightarrow> archive \<Rightarrow> string list \<Rightarrow> unit action" where
  "extract_names P targetdir a [] w = ret () w"
| "extract_names P targetdir a (n # ns) w =
     (case getinfo a n of
        None \<Rightarrow> throw KeyError w
      | Some m \<Rightarrow> and_then (extract_member P targetdir m)
                   (\<lambda>_. extract_names P targetdir a ns) w)"

definition extractall :: "platform \<Rightarrow> path \<Rightarrow> archive \<Rightarrow> unit action" where
  "extractall P targetdir a = extract_names P targetdir a (namelist a)"

text \<open>
  \<^verbatim>\<open>with tempfile.TemporaryDirectory() as tmpdir\<close>: the directory is made, the body runs,
  and on the way out, whether the body returned or raised, the directory and all below it
  are removed.
\<close>

definition with_tempdir :: "platform \<Rightarrow> (path \<Rightarrow> 'a action) \<Rightarrow> 'a action" where
  "with_tempdir P body w =
     (case on_files (os_mkdir (mkdtemp P)) w of
        (Inl e, w') \<Rightarrow> (Inl e, w')
      | (Inr _, w1) \<Rightarrow>
          (case body (mkdtemp P) w1 of
             (r, w2) \<Rightarrow> (r, w2\<lparr>files := rmtree (mkdtemp P) (files w2)\<rparr>)))"

text \<open>\<^verbatim>\<open>zipfile.ZipFile(path, "r")\<close>: the path must be a regular file that decodes.\<close>

definition open_zip :: "platform \<Rightarrow> path \<Rightarrow> archive action" where
  "open_zip P p w =
     (case path_stat P (files w) p of
        Inl e \<Rightarrow> throw e w
      | Inr (Some (Regular b m)) \<Rightarrow>
          (case read_zip P b of Some a \<Rightarrow> ret a w | None \<Rightarrow> throw BadZipFile w)
      | Inr _ \<Rightarrow> throw OSError w)"

subsection \<open>The script's functions\<close>

text \<open>
  \<^verbatim>\<open>_copy_tree(source, destination)\<close>. The loop runs over the entries \<^verbatim>\<open>rglob\<close> gave;
  \<^verbatim>\<open>is_file\<close> is asked when the entry's turn comes. The source is the extracted storage
  directory, an absolute path; the destination is the data directory as the user gave it.
\<close>

fun copy_files ::
  "platform \<Rightarrow> path \<Rightarrow> path \<Rightarrow> path list \<Rightarrow> path list \<Rightarrow> (path list) action" where
  "copy_files P source destination [] copied w = ret copied w"
| "copy_files P source destination (p # ps) copied w =
     (if \<not> fs_is_file (files w) p then copy_files P source destination ps copied w
      else (let rel = drop (length source) p;
                target = destination @ rel
            in and_then (changing (Path_mkdir P (parent target)))
                 (\<lambda>_. and_then (on_files (copy2 P p target))
                   (\<lambda>_. copy_files P source destination ps (copied @ [target]))) w))"

definition copy_tree :: "platform \<Rightarrow> path \<Rightarrow> path \<Rightarrow> (path list) action" where
  "copy_tree P source destination w =
     copy_files P source destination (rglob_all (files w) source) [] w"

text \<open>\<^verbatim>\<open>_backup_existing_db(db_path)\<close>.\<close>

definition backup_existing_db :: "platform \<Rightarrow> path \<Rightarrow> (path option) action" where
  "backup_existing_db P db_path =
     and_then (path_exists P db_path)
       (\<lambda>found.
          if \<not> found then ret None
          else (let timestamp = strftime (localtime P) in
                and_then
                  (pure (with_suffix db_path (path_suffix db_path @ ''.bak_'' @ timestamp)))
                  (\<lambda>backup_path.
                     and_then (changing (Path_mkdir P (parent backup_path)))
                       (\<lambda>_. and_then (on_files (copy2 P db_path backup_path))
                         (\<lambda>_. ret (Some backup_path))))))"

text \<open>
  The body of \<^verbatim>\<open>main\<close> inside the temporary directory, in its two steps. Lines 133 to
  136: the candidates for the database.
\<close>

definition db_candidates :: "fs \<Rightarrow> path \<Rightarrow> path list" where
  "db_candidates t temp_root =
     (let db_dir = joinpath temp_root (Path ''database'') in
      if fs_exists t db_dir then sort (glob_db t db_dir) else [])"

text \<open>Lines 138 to 146: the database step.\<close>

definition restore_database :: "platform \<Rightarrow> path \<Rightarrow> path \<Rightarrow> unit action" where
  "restore_database P db_path temp_root w =
     (case db_candidates (files w) temp_root of
        [] \<Rightarrow> print NoDatabase w
      | first # _ \<Rightarrow>
          and_then (backup_existing_db P db_path)
            (\<lambda>backup_path.
               and_then (case backup_path of
                           Some b \<Rightarrow> print (BackedUp b)
                         | None \<Rightarrow> ret ())
                 (\<lambda>_. and_then (changing (Path_mkdir P (parent db_path)))
                   (\<lambda>_. and_then (on_files (copy2 P first db_path))
                     (\<lambda>_. print (RestoredDatabase db_path))))) w)"

text \<open>Lines 148 to 153: the storage step.\<close>

definition restore_storage :: "platform \<Rightarrow> path \<Rightarrow> path \<Rightarrow> unit action" where
  "restore_storage P data_dir temp_root w =
     (let storage_dir = joinpath temp_root (Path ''storage'') in
      if fs_exists (files w) storage_dir
      then and_then (changing (Path_mkdir P data_dir))
             (\<lambda>_. and_then (copy_tree P storage_dir data_dir)
               (\<lambda>copied. print (RestoredStorage (length copied) data_dir))) w
      else print NoStorage w)"

text \<open>
  The command line as \<^verbatim>\<open>argparse\<close> sees it. \<open>Help\<close>: \<^verbatim>\<open>-h\<close> or \<^verbatim>\<open>--help\<close> is met
  before any error. \<open>Malformed\<close>: the tokens are not of the declared shape (an unknown or
  surplus argument, an option without the one value it takes, a value that looks like an
  option). \<open>Given\<close>: every token belongs to a declared option; the record holds, for each
  option, the value given. \<^verbatim>\<open>--backup\<close> is required and \<^verbatim>\<open>--app\<close> has the choices crm
  and sales. \<^verbatim>\<open>parse_args\<close> ends the process with status 0 after the help text and with
  status 2 after a usage error, or returns the namespace.
\<close>

record options =
  opt_backup :: "string option"
  opt_app :: "string option"
  opt_data_dir :: "string option"
  opt_dry_run :: bool

datatype cmdline = Help | Malformed | Given options

record args =
  args_backup :: string
  args_app :: "string option"
  args_data_dir :: "string option"
  args_dry_run :: bool

definition parse_args :: "cmdline \<Rightarrow> int + args" where
  "parse_args c =
     (case c of
        Help \<Rightarrow> Inl 0
      | Malformed \<Rightarrow> Inl 2
      | Given opts \<Rightarrow>
          (case opt_backup opts of
             None \<Rightarrow> Inl 2
           | Some b \<Rightarrow>
               if opt_app opts \<in> {None, Some ''crm'', Some ''sales''}
               then Inr \<lparr>args_backup = b, args_app = opt_app opts,
                          args_data_dir = opt_data_dir opts, args_dry_run = opt_dry_run opts\<rparr>
               else Inl 2))"

text \<open>Lines 117 to 125: the dry-run report.\<close>

definition dry_run_report :: "archive \<Rightarrow> string \<Rightarrow> path \<Rightarrow> path \<Rightarrow> unit action" where
  "dry_run_report a app data_dir db_path =
     (let storage_files = filter (prefix ''storage/'') (namelist a);
          db_files = filter (prefix ''database/'') (namelist a)
      in and_then (print (ReportApp app))
           (\<lambda>_. and_then (print (ReportDataDir data_dir))
             (\<lambda>_. and_then (print (ReportDatabasePath db_path))
               (\<lambda>_. and_then (print (ReportStorageCount (length storage_files)))
                 (\<lambda>_. print (ReportDatabaseFiles db_files))))))"

text \<open>Lines 128 to 153: what runs inside the temporary directory.\<close>

definition restore_body :: "platform \<Rightarrow> archive \<Rightarrow> path \<Rightarrow> path \<Rightarrow> path \<Rightarrow> unit action" where
  "restore_body P a data_dir db_path tmpdir =
     and_then (extractall P tmpdir a)
       (\<lambda>_. and_then (restore_database P db_path tmpdir)
         (\<lambda>_. restore_storage P data_dir tmpdir))"

text \<open>Lines 99 to 155 of \<^verbatim>\<open>main\<close>: what runs once the command line has parsed.\<close>

definition restore :: "platform \<Rightarrow> args \<Rightarrow> int action" where
  "restore P a =
     and_then (pure (expanduser P (Path (args_backup a))))
       (\<lambda>archive_path.
          and_then (path_exists P archive_path)
            (\<lambda>found.
               if \<not> found
               then and_then (eprint (ArchiveNotFound archive_path)) (\<lambda>_. ret 2)
               else and_then (open_zip P archive_path)
                      (\<lambda>archive.
                         case resolve_app (args_app a) archive of
                           None \<Rightarrow> and_then (eprint CannotDetectApp) (\<lambda>_. ret 2)
                         | Some app \<Rightarrow>
                             and_then
                               (pure (if app = ''crm'' then crm_paths P (args_data_dir a)
                                      else sales_paths P (args_data_dir a)))
                               (\<lambda>(data_dir, db_path).
                                  if args_dry_run a
                                  then and_then
                                         (dry_run_report archive app data_dir db_path)
                                         (\<lambda>_. ret 0)
                                  else and_then
                                         (with_tempdir P
                                            (restore_body P archive data_dir db_path))
                                         (\<lambda>_. ret 0)))))"

text \<open>
  \<^verbatim>\<open>main()\<close> as the process sees it: \<^verbatim>\<open>parse_args\<close> may end the process; otherwise
  \<^verbatim>\<open>main\<close> returns a status or an exception leaves it. \<^verbatim>\<open>raise SystemExit(main())\<close>
  makes the returned value the exit status, and an uncaught exception ends the process with
  status 1.
\<close>

datatype outcome = Returned int | Raised error | Exited int

definition main :: "platform \<Rightarrow> cmdline \<Rightarrow> world \<Rightarrow> outcome \<times> world" where
  "main P c w =
     (case parse_args c of
        Inl status \<Rightarrow>
          (Exited status,
           if status = 0 then w\<lparr>stdout := stdout w @ [HelpText]\<rparr>
           else w\<lparr>stderr := stderr w @ [UsageError]\<rparr>)
      | Inr a \<Rightarrow>
          (case restore P a w of
             (Inl e, w') \<Rightarrow> (Raised e, w')
           | (Inr status, w') \<Rightarrow> (Returned status, w')))"

definition exit_status :: "outcome \<Rightarrow> int" where
  "exit_status r = (case r of Returned n \<Rightarrow> n | Exited n \<Rightarrow> n | Raised e \<Rightarrow> 1)"

section \<open>An example platform, world and archives\<close>

text \<open>
  Concrete inputs on which the theorems below are exercised: a machine with no environment
  variables and an empty password database, a small file system, and archives that differ in
  the one feature each name says.
\<close>

definition ex_archive :: archive where
  "ex_archive =
     [\<lparr>filename = ''exports/ps_crm.sql'', payload = ''dump''\<rparr>,
      \<lparr>filename = ''database/'', payload = ''''\<rparr>,
      \<lparr>filename = ''database/b.db'', payload = ''BBB''\<rparr>,
      \<lparr>filename = ''database/a.db'', payload = ''AAA''\<rparr>,
      \<lparr>filename = ''database/sub/0.db'', payload = ''nested''\<rparr>,
      \<lparr>filename = ''database/notes.txt'', payload = ''notes''\<rparr>,
      \<lparr>filename = ''storage/a/b/file.txt'', payload = ''hello''\<rparr>]"

definition ex_archive_shadow :: archive where
  "ex_archive_shadow =
     [\<lparr>filename = ''exports/ps_crm.sql'', payload = ''dump''\<rparr>,
      \<lparr>filename = ''database/a.db'', payload = ''AAA''\<rparr>,
      \<lparr>filename = ''storage/ps_crm.db'', payload = ''shadow''\<rparr>]"

definition ex_archive_rooted :: archive where
  "ex_archive_rooted =
     [\<lparr>filename = ''exports/ps_crm.sql'', payload = ''dump''\<rparr>,
      \<lparr>filename = ''/storage/n.txt'', payload = ''hi''\<rparr>]"

definition ex_archive_plain :: archive where
  "ex_archive_plain =
     [\<lparr>filename = ''exports/ps_sales.sql'', payload = ''dump''\<rparr>,
      \<lparr>filename = ''readme.txt'', payload = ''read me''\<rparr>]"

definition ex_archive_clash :: archive where
  "ex_archive_clash =
     [\<lparr>filename = ''exports/ps_crm.sql'', payload = ''dump''\<rparr>,
      \<lparr>filename = ''x'', payload = ''a file''\<rparr>,
      \<lparr>filename = ''x/y'', payload = ''below a file''\<rparr>]"

definition ex_archive_unmarked :: archive where
  "ex_archive_unmarked = [\<lparr>filename = ''readme.txt'', payload = ''read me''\<rparr>]"

definition ex_read_zip :: "bytes \<Rightarrow> archive option" where
  "ex_read_zip b =
     (if b = ''zip:full'' then Some ex_archive
      else if b = ''zip:shadow'' then Some ex_archive_shadow
      else if b = ''zip:rooted'' then Some ex_archive_rooted
      else if b = ''zip:plain'' then Some ex_archive_plain
      else if b = ''zip:clash'' then Some ex_archive_clash
      else if b = ''zip:unmarked'' then Some ex_archive_unmarked
      else None)"

definition ex_platform :: platform where
  "ex_platform =
     \<lparr>environ = Map.empty, passwd = Map.empty, getcwd = [''/'', ''work''],
      get_storage_dir = ''/data'', config_data_dir = [''/'', ''sales''],
      localtime = \<lparr>tm_year = 2024, tm_mon = 1, tm_mday = 1,
                   tm_hour = 12, tm_min = 0, tm_sec = 0\<rparr>,
      mkdtemp = [''/'', ''tmp'', ''tmpx''], fresh_meta = 7, read_zip = ex_read_zip\<rparr>"

definition ex_world :: world where
  "ex_world =
     \<lparr>files =
        [([''/''], Directory),
         ([''/'', ''tmp''], Directory),
         ([''/'', ''work''], Directory),
         ([''/'', ''work'', ''full.zip''], Regular ''zip:full'' 1),
         ([''/'', ''work'', ''shadow.zip''], Regular ''zip:shadow'' 1),
         ([''/'', ''work'', ''rooted.zip''], Regular ''zip:rooted'' 1),
         ([''/'', ''work'', ''plain.zip''], Regular ''zip:plain'' 1),
         ([''/'', ''work'', ''clash.zip''], Regular ''zip:clash'' 1),
         ([''/'', ''work'', ''unmarked.zip''], Regular ''zip:unmarked'' 1),
         ([''/'', ''data''], Directory),
         ([''/'', ''data'', ''ps_crm.db''], Regular ''old'' 3),
         ([''/'', ''sales''], Directory)],
      stdout = [], stderr = []\<rparr>"

definition ex_cmdline :: "string \<Rightarrow> bool \<Rightarrow> cmdline" where
  "ex_cmdline b dry =
     Given \<lparr>opt_backup = Some b, opt_app = None, opt_data_dir = None, opt_dry_run = dry\<rparr>"

section \<open>Notions for the proofs\<close>

definition component :: "string \<Rightarrow> bool" where
  "component c \<longleftrightarrow> c \<noteq> '''' \<and> c \<noteq> ''.'' \<and> CHR ''/'' \<notin> set c"

definition wf_path :: "path \<Rightarrow> bool" where
  "wf_path p \<longleftrightarrow> (\<exists>r cs. p = r @ cs \<and> r \<in> {[], [''/''], [''//'']} \<and> list_all component cs)"

definition changed_only :: "(path \<Rightarrow> bool) \<Rightarrow> fs \<Rightarrow> fs \<Rightarrow> bool" where
  "changed_only S t t' \<longleftrightarrow> (\<forall>q. lookup t' q \<noteq> lookup t q \<longrightarrow> S q)"


text \<open>
  The run has come as far as line 111: the command line parses to \<open>a\<close>, the archive path
  expands, what lies there opens as the archive \<open>A\<close>, and the app is given or detected.
\<close>

definition opens :: "platform \<Rightarrow> cmdline \<Rightarrow> world \<Rightarrow> args \<Rightarrow> archive \<Rightarrow> string \<Rightarrow> bool" where
  "opens P c w a A app \<longleftrightarrow>
     parse_args c = Inr a
     \<and> (case expanduser P (Path (args_backup a)) of
          Inl e \<Rightarrow> False
        | Inr archive_path \<Rightarrow> open_zip P archive_path w = (Inr A, w))
     \<and> resolve_app (args_app a) A = Some app"

text \<open>Lines 113 to 115: the two paths of the app.\<close>

definition app_paths :: "platform \<Rightarrow> string \<Rightarrow> string option \<Rightarrow> error + (path \<times> path)" where
  "app_paths P app data_dir_override =
     (if app = ''crm'' then crm_paths P data_dir_override
      else sales_paths P data_dir_override)"

section \<open>Lemmas\<close>

subsection \<open>Paths\<close>

lemma split_on_nonempty: "split_on c s \<noteq> []"
  by (induction s) (auto split: list.splits)

lemma split_on_free: "x \<in> set (split_on c s) \<Longrightarrow> c \<notin> set x"
proof (induction s arbitrary: x)
  case Nil
  then show ?case by simp
next
  case (Cons a s)
  obtain w ws where ws: "split_on c s = w # ws"
    using split_on_nonempty [of c s] by (cases "split_on c s") auto
  show ?case
  proof (cases "a = c")
    case True
    with Cons show ?thesis by auto
  next
    case False
    with Cons.prems ws have "x = a # w \<or> x \<in> set ws" by auto
    then show ?thesis
      using Cons.IH False ws by auto
  qed
qed

lemma split_on_single: "c \<notin> set x \<Longrightarrow> split_on c x = [x]"
  by (induction x) auto

lemma split_on_append: "c \<notin> set x \<Longrightarrow> split_on c (x @ c # rest) = x # split_on c rest"
  by (induction x) auto

lemma split_join:
  "cs \<noteq> [] \<Longrightarrow> list_all (\<lambda>x. CHR ''/'' \<notin> set x) cs \<Longrightarrow> split_on CHR ''/'' (join_sep cs) = cs"
proof (induction cs rule: join_sep.induct)
  case 1
  then show ?case by simp
next
  case (2 x)
  then show ?case by (simp add: split_on_single)
next
  case (3 x y zs)
  then show ?case by (simp add: split_on_append)
qed

lemma join_sep_hd: "cs \<noteq> [] \<Longrightarrow> hd cs \<noteq> [] \<Longrightarrow> join_sep cs \<noteq> [] \<and> hd (join_sep cs) = hd (hd cs)"
  by (induction cs rule: join_sep.induct) auto

lemma wf_path_Path: "wf_path (Path s)"
  unfolding wf_path_def Path_def
  apply (rule exI [of _ "root_of s"])
  apply (rule exI [of _ "filter (\<lambda>c. c \<noteq> '''' \<and> c \<noteq> ''.'') (split_on CHR ''/'' s)"])
  apply (auto simp: root_of_def list_all_iff component_def dest: split_on_free)
  done

lemma filter_components: "list_all component cs \<Longrightarrow> filter (\<lambda>c. c \<noteq> '''' \<and> c \<noteq> ''.'') cs = cs"
  by (induction cs) (auto simp: component_def)

lemma components_free: "list_all component cs \<Longrightarrow> list_all (\<lambda>x. CHR ''/'' \<notin> set x) cs"
  by (induction cs) (auto simp: component_def)

lemma Path_join_components:
  assumes "list_all component cs" "cs \<noteq> []"
  shows "filter (\<lambda>c. c \<noteq> '''' \<and> c \<noteq> ''.'') (split_on CHR ''/'' (join_sep cs)) = cs"
    and "join_sep cs \<noteq> []" and "hd (join_sep cs) \<noteq> CHR ''/''"
proof -
  from assms have hd: "hd cs \<noteq> []" "CHR ''/'' \<notin> set (hd cs)"
    by (cases cs; simp add: component_def)+
  show "filter (\<lambda>c. c \<noteq> '''' \<and> c \<noteq> ''.'') (split_on CHR ''/'' (join_sep cs)) = cs"
    using assms by (simp add: split_join components_free filter_components)
  show "join_sep cs \<noteq> []" using join_sep_hd [OF assms(2) hd(1)] by simp
  have "hd (join_sep cs) = hd (hd cs)" using join_sep_hd [OF assms(2) hd(1)] by simp
  then show "hd (join_sep cs) \<noteq> CHR ''/''" using hd by (cases "hd cs") auto
qed

lemma Path_str_path: 
  assumes "wf_path p" shows "Path (str_path p) = p"
proof -
  from assms obtain r cs where p: "p = r @ cs" and r: "r \<in> {[], [''/''], [''//'']}"
    and cs: "list_all component cs" by (auto simp: wf_path_def)
  show ?thesis
  proof (cases "cs = []")
    case True
    with p r show ?thesis
      by (auto simp: str_path_def Path_def root_of_def is_rooted_def)
  next
    case False
    note J = Path_join_components [OF cs False]
    obtain a s where js: "join_sep cs = a # s" "a \<noteq> CHR ''/''"
      using J(2,3) by (cases "join_sep cs") auto
    have nr: "\<not> is_rooted cs" using cs False
      by (cases cs) (auto simp: is_rooted_def component_def)
    from r consider "r = []" | "r = [''/'']" | "r = [''//'']" by auto
    then show ?thesis
    proof cases
      case 1
      with p False nr J(1) js show ?thesis
        by (simp add: str_path_def Path_def root_of_def)
    next
      case 2
      with p False J(1) js show ?thesis
        by (simp add: str_path_def Path_def root_of_def is_rooted_def)
    next
      case 3
      with p False J(1) js show ?thesis
        by (simp add: str_path_def Path_def root_of_def is_rooted_def)
    qed
  qed
qed

lemma wf_path_snoc: "wf_path p \<Longrightarrow> component n \<Longrightarrow> wf_path (p @ [n])"
  unfolding wf_path_def
  apply clarify
  subgoal for r cs
    apply (rule exI [of _ r])
    apply (rule exI [of _ "cs @ [n]"])
    apply auto
    done
  done

lemma unrooted_components: 
  assumes "wf_path p" "\<not> is_rooted p" shows "list_all component p"
  using assms by (auto simp: wf_path_def is_rooted_def)

lemma wf_path_expanduser: 
  assumes "wf_path p" "expanduser P p = Inr d" shows "wf_path d"
proof (cases "\<not> is_rooted p \<and> p \<noteq> [] \<and> take 1 (hd p) = ''~''")
  case True
  then have d: "d = Path (os_expanduser P (hd p)) @ tl p"
    using assms(2) by (auto simp: expanduser_def Let_def split: if_splits)
  have "list_all component (tl p)"
    using unrooted_components [OF assms(1)] True by (cases p) auto
  moreover obtain r cs where "Path (os_expanduser P (hd p)) = r @ cs" 
      "r \<in> {[], [''/''], [''//'']}" "list_all component cs"
    using wf_path_Path [of "os_expanduser P (hd p)"] unfolding wf_path_def by blast
  ultimately show ?thesis unfolding wf_path_def d
    apply -
    apply (rule exI [of _ r])
    apply (rule exI [of _ "cs @ tl p"])
    apply auto
    done
next
  case False
  then have "d = p" using assms(2) by (auto simp: expanduser_def)
  with assms show ?thesis by simp
qed

lemma joinpath_name [simp]:
  "joinpath p (Path ''ps_crm.db'') = p @ [''ps_crm.db'']"
  "joinpath p (Path ''ps_sales.db'') = p @ [''ps_sales.db'']"
  "joinpath p (Path ''database'') = p @ [''database'']"
  "joinpath p (Path ''storage'') = p @ [''storage'']"
  by (simp_all add: joinpath_def Path_def root_of_def is_rooted_def)

lemma crm_default_db: 
  assumes "wf_path d" shows "Path (str_path (joinpath d (Path ''ps_crm.db''))) = d @ [''ps_crm.db'']"
  using Path_str_path [OF wf_path_snoc [OF assms, of "''ps_crm.db''"]]
  by (simp add: component_def)

lemma expanduser_Inl:
  "expanduser P p = Inl e \<longleftrightarrow>
     e = RuntimeError \<and> \<not> is_rooted p \<and> p \<noteq> [] \<and> take 1 (hd p) = ''~''
     \<and> take 1 (os_expanduser P (hd p)) = ''~''"
  by (auto simp: expanduser_def Let_def)

lemma expanduser_plain:
  "is_rooted p \<or> p = [] \<or> take 1 (hd p) \<noteq> ''~'' \<Longrightarrow> expanduser P p = Inr p"
  by (auto simp: expanduser_def)

subsection \<open>The file system\<close>

lemma lookup_put [simp]: "lookup (put k n t) q = (if q = k then Some n else lookup t q)"
  by (simp add: lookup_def put_def update_conv')

lemma lookup_rmtree [simp]: "lookup (rmtree d t) q = (if prefix d q then None else lookup t q)"
  unfolding lookup_def rmtree_def
  by (induction t) auto

lemma in_entries: "q \<in> set (entries t) \<longleftrightarrow> lookup t q \<noteq> None"
  by (simp add: entries_def lookup_def map_of_eq_None_iff)

lemma distinct_entries [simp]: "distinct (entries t)"
  by (simp add: entries_def)

lemma fs_exists_put [simp]: "fs_exists (put k n t) q \<longleftrightarrow> q = k \<or> fs_exists t q"
  by (simp add: fs_exists_def)

lemma dirname_length: "dirname k \<noteq> k \<Longrightarrow> length (dirname k) < length k"
  by (auto simp: dirname_def split: if_splits)







subsection \<open>Extraction\<close>

lemma changed_only_refl [simp]: "changed_only S t t"
  by (simp add: changed_only_def)











subsection \<open>The structure of a run\<close>

lemma open_zip_world: "open_zip P p w = (r, w') \<Longrightarrow> w' = w"
  by (auto simp: open_zip_def ret_def throw_def split: sum.splits option.splits node.splits)

lemma open_zip_stat:
  "open_zip P p w = (Inr A, w') \<Longrightarrow>
     \<exists>b m. path_stat P (files w) p = Inr (Some (Regular b m)) \<and> read_zip P b = Some A"
  by (auto simp: open_zip_def ret_def throw_def split: sum.splits option.splits node.splits)

lemma path_exists_result:
  "path_exists P p w =
     (case path_stat P (files w) p of Inl e \<Rightarrow> (Inl e, w) | Inr n \<Rightarrow> (Inr (n \<noteq> None), w))"
  by (simp add: path_exists_def)

lemma restore_expand_fails:
  "expanduser P (Path (args_backup a)) = Inl e \<Longrightarrow> restore P a w = (Inl e, w)"
  by (simp add: restore_def and_then_def pure_def)

lemma restore_stat_fails:
  "expanduser P (Path (args_backup a)) = Inr ap \<Longrightarrow> path_stat P (files w) ap = Inl e \<Longrightarrow>
   restore P a w = (Inl e, w)"
  by (simp add: restore_def and_then_def pure_def path_exists_def)

lemma restore_missing:
  "expanduser P (Path (args_backup a)) = Inr ap \<Longrightarrow> path_stat P (files w) ap = Inr None \<Longrightarrow>
   restore P a w = (Inr 2, w\<lparr>stderr := stderr w @ [ArchiveNotFound ap]\<rparr>)"
  by (simp add: restore_def and_then_def pure_def path_exists_def eprint_def ret_def)

lemma restore_open_fails:
  "expanduser P (Path (args_backup a)) = Inr ap \<Longrightarrow> path_stat P (files w) ap = Inr (Some n) \<Longrightarrow>
   open_zip P ap w = (Inl e, w') \<Longrightarrow> restore P a w = (Inl e, w)"
  by (frule open_zip_world) (simp add: restore_def and_then_def pure_def path_exists_def)

lemma restore_opened:
  "expanduser P (Path (args_backup a)) = Inr ap \<Longrightarrow>
   open_zip P ap w = (Inr A, w') \<Longrightarrow>
   restore P a w =
     (case resolve_app (args_app a) A of
        None \<Rightarrow> (Inr 2, w\<lparr>stderr := stderr w @ [CannotDetectApp]\<rparr>)
      | Some app \<Rightarrow>
         (case app_paths P app (args_data_dir a) of
            Inl e \<Rightarrow> (Inl e, w)
          | Inr (data_dir, db_path) \<Rightarrow>
              if args_dry_run a
              then and_then (dry_run_report A app data_dir db_path) (\<lambda>_. ret 0) w
              else and_then (with_tempdir P (restore_body P A data_dir db_path)) (\<lambda>_. ret 0) w))"
  apply (frule open_zip_world)
  apply (frule open_zip_stat)
  apply (auto simp: restore_def and_then_def pure_def eprint_def ret_def path_exists_def
      app_paths_def split: option.splits sum.splits prod.splits)
  done

lemma opens_restore:
  assumes "opens P c w a A app"
  shows "restore P a w =
     (case app_paths P app (args_data_dir a) of
        Inl e \<Rightarrow> (Inl e, w)
      | Inr (data_dir, db_path) \<Rightarrow>
          if args_dry_run a
          then and_then (dry_run_report A app data_dir db_path) (\<lambda>_. ret 0) w
          else and_then (with_tempdir P (restore_body P A data_dir db_path)) (\<lambda>_. ret 0) w)"
proof -
  from assms obtain ap where ap: "expanduser P (Path (args_backup a)) = Inr ap"
    and oz: "open_zip P ap w = (Inr A, w)"
    and app: "resolve_app (args_app a) A = Some app"
    by (auto simp: opens_def split: sum.splits)
  show ?thesis
    unfolding restore_opened [OF ap oz] app by simp
qed

lemma opens_main:
  assumes "opens P c w a A app"
  shows "main P c w =
     (case restore P a w of
        (Inl e, w') \<Rightarrow> (Raised e, w')
      | (Inr status, w') \<Rightarrow> (Returned status, w'))"
  using assms by (simp add: opens_def main_def)

lemma dry_run_report_result:
  "dry_run_report A app data_dir db_path w =
     (Inr (), w\<lparr>stdout := stdout w @
        [ReportApp app, ReportDataDir data_dir, ReportDatabasePath db_path,
         ReportStorageCount (length (filter (prefix ''storage/'') (namelist A))),
         ReportDatabaseFiles (filter (prefix ''database/'') (namelist A))]\<rparr>)"
  by (simp add: dry_run_report_def Let_def and_then_def print_def)

lemma then_zero: "and_then m (\<lambda>_. ret 0) w = (Inr n, w') \<Longrightarrow> n = (0::int)"
  by (auto simp: and_then_def ret_def split: prod.splits sum.splits)

lemma with_tempdir_files:
  "with_tempdir P body w = (r, w') \<Longrightarrow>
     files w' = files w \<or> (\<exists>t. files w' = rmtree (mkdtemp P) t)"
  by (auto simp: with_tempdir_def on_files_def split: sum.splits prod.splits)

lemma then_zero_world: "and_then m (\<lambda>_. ret (0::int)) w = (r, w') \<Longrightarrow> \<exists>r'. m w = (r', w')"
  by (auto simp: and_then_def ret_def split: prod.splits sum.splits)

lemma restore_files:
  assumes "restore P a w = (r, w')"
  shows "files w' = files w \<or> (\<exists>t. files w' = rmtree (mkdtemp P) t)"
proof (cases "expanduser P (Path (args_backup a))")
  case (Inl e)
  with assms show ?thesis by (simp add: restore_expand_fails)
next
  case ap: (Inr ap)
  show ?thesis
  proof (cases "path_stat P (files w) ap")
    case (Inl e)
    with assms ap show ?thesis by (simp add: restore_stat_fails)
  next
    case (Inr n)
    show ?thesis
    proof (cases n)
      case None
      with assms ap Inr show ?thesis by (auto simp: restore_missing)
    next
      case (Some nd)
      obtain r1 w1 where oz: "open_zip P ap w = (r1, w1)"
        by (cases "open_zip P ap w")
      show ?thesis
      proof (cases r1)
        case (Inl e)
        with assms ap Inr Some oz show ?thesis by (simp add: restore_open_fails)
      next
        case A: (Inr A)
        with oz have oz': "open_zip P ap w = (Inr A, w1)" by simp
        note R = restore_opened [OF ap oz']
        show ?thesis
        proof (cases "resolve_app (args_app a) A")
          case None
          with assms R show ?thesis by auto
        next
          case app: (Some app)
          show ?thesis
          proof (cases "app_paths P app (args_data_dir a)")
            case (Inl e)
            with assms app R show ?thesis by auto
          next
            case (Inr pr)
            obtain data_dir db_path where pr: "pr = (data_dir, db_path)" by (cases pr)
            show ?thesis
            proof (cases "args_dry_run a")
              case True
              with assms app Inr pr R show ?thesis
                by (auto simp: and_then_def dry_run_report_result ret_def)
            next
              case False
              with assms app Inr pr R
              have "and_then (with_tempdir P (restore_body P A data_dir db_path)) (\<lambda>_. ret 0) w
                    = (r, w')" by simp
              from then_zero_world [OF this] with_tempdir_files show ?thesis by blast
            qed
          qed
        qed
      qed
    qed
  qed
qed

lemma main_files:
  assumes "main P c w = (r, w')"
  shows "files w' = files w \<or> (\<exists>t. files w' = rmtree (mkdtemp P) t)"
proof (cases "parse_args c")
  case (Inl status)
  with assms show ?thesis by (auto simp: main_def split: if_splits)
next
  case (Inr a)
  obtain r1 w1 where "restore P a w = (r1, w1)" by (cases "restore P a w")
  with assms Inr restore_files [OF this] show ?thesis
    by (auto simp: main_def split: sum.splits)
qed

lemma parse_args_status: "parse_args c = Inl n \<Longrightarrow> n = 0 \<or> n = 2"
  by (auto simp: parse_args_def split: cmdline.splits option.splits if_splits)

lemma parse_args_app:
  "parse_args c = Inr a \<Longrightarrow> args_app a \<in> {None, Some ''crm'', Some ''sales''}"
  by (auto simp: parse_args_def split: cmdline.splits option.splits if_splits)

lemma resolve_app_None:
  "given \<in> {None, Some ''crm'', Some ''sales''} \<Longrightarrow>
   resolve_app given A = None \<longleftrightarrow> given = None \<and> detect_app A = None"
  by (auto simp: resolve_app_def)

lemma restore_status:
  assumes "restore P a w = (r, w')"
  shows "(r = Inr 2 \<longleftrightarrow>
           (\<exists>ap. expanduser P (Path (args_backup a)) = Inr ap
              \<and> (path_stat P (files w) ap = Inr None
                  \<or> (\<exists>A. open_zip P ap w = (Inr A, w)
                        \<and> resolve_app (args_app a) A = None))))
       \<and> (r = Inr 2 \<longrightarrow> files w' = files w \<and> stdout w' = stdout w
              \<and> (\<exists>m. stderr w' = stderr w @ [m]))"
proof (cases "expanduser P (Path (args_backup a))")
  case (Inl e)
  with assms show ?thesis by (auto simp: restore_expand_fails)
next
  case ap: (Inr ap)
  show ?thesis
  proof (cases "path_stat P (files w) ap")
    case (Inl e)
    have "open_zip P ap w \<noteq> (Inr A, w)" for A
      using Inl by (auto dest: open_zip_stat)
    with assms ap Inl show ?thesis by (auto simp: restore_stat_fails)
  next
    case st: (Inr n)
    show ?thesis
    proof (cases n)
      case None
      with assms ap st show ?thesis by (auto simp: restore_missing)
    next
      case (Some nd)
      obtain r1 w1 where oz: "open_zip P ap w = (r1, w1)"
        by (cases "open_zip P ap w")
      then have w1: "w1 = w" by (rule open_zip_world)
      show ?thesis
      proof (cases r1)
        case (Inl e)
        with assms ap st Some oz w1 show ?thesis by (auto simp: restore_open_fails)
      next
        case (Inr A)
        with oz w1 have oz': "open_zip P ap w = (Inr A, w)" by simp
        note R = restore_opened [OF ap oz']
        show ?thesis
        proof (cases "resolve_app (args_app a) A")
          case None
          with assms R ap st Some oz' show ?thesis by auto
        next
          case app: (Some app)
          have "r \<noteq> Inr 2"
          proof (cases "app_paths P app (args_data_dir a)")
            case (Inl e)
            with assms app R show ?thesis by auto
          next
            case (Inr pr)
            obtain data_dir db_path where pr: "pr = (data_dir, db_path)" by (cases pr)
            show ?thesis
            proof
              assume "r = Inr 2"
              with assms app Inr pr R have
                "and_then (dry_run_report A app data_dir db_path) (\<lambda>_. ret 0) w
                    = (Inr (2::int), w')
                 \<or> and_then (with_tempdir P (restore_body P A data_dir db_path)) (\<lambda>_. ret 0) w
                    = (Inr (2::int), w')"
                by (auto split: if_splits)
              then show False by (auto dest: then_zero)
            qed
          qed
          with ap st Some oz' app show ?thesis by auto
        qed
      qed
    qed
  qed
qed

subsection \<open>The example runs\<close>

lemma fresh_from_entries:
  assumes "list_all (\<lambda>k. \<not> prefix d k) (entries t)"
  shows "\<forall>k. prefix d k \<longrightarrow> lookup t k = None"
proof (intro allI impI)
  fix k assume "prefix d k"
  with assms have "k \<notin> set (entries t)" by (auto simp: list_all_iff)
  then show "lookup t k = None" by (simp add: in_entries)
qed

lemma ex_world_fresh:
  "\<forall>k. prefix (mkdtemp ex_platform) k \<longrightarrow> lookup (files ex_world) k = None"
  by (rule fresh_from_entries) code_simp

lemma ex_opens_full:
  "opens ex_platform (ex_cmdline ''full.zip'' dry) ex_world
     \<lparr>args_backup = ''full.zip'', args_app = None, args_data_dir = None, args_dry_run = dry\<rparr>
     ex_archive ''crm''"
  by (cases dry; code_simp)

subsection \<open>A run that is not a dry run\<close>













section \<open>The claims\<close>

text \<open>
  C3. Detection over the archive's entry names: the first-app marker yields crm whether or
  not the second-app marker is there (so crm wins when both are present); otherwise the
  second-app marker yields sales; otherwise detection fails. An app identity given on the
  command line is used whatever the archive holds.
\<close>

theorem detect_app_priority:
  "(CRM_EXPORT_MARKER \<in> set (namelist a) \<longrightarrow> detect_app a = Some ''crm'')
   \<and> (CRM_EXPORT_MARKER \<notin> set (namelist a) \<and> SALES_EXPORT_MARKER \<in> set (namelist a)
        \<longrightarrow> detect_app a = Some ''sales'')
   \<and> (CRM_EXPORT_MARKER \<notin> set (namelist a) \<and> SALES_EXPORT_MARKER \<notin> set (namelist a)
        \<longrightarrow> detect_app a = None)
   \<and> (given \<in> {''crm'', ''sales''} \<longrightarrow> resolve_app (Some given) a = Some given)
   \<and> resolve_app None a = detect_app a"
  by (auto simp: detect_app_def resolve_app_def Let_def)

theorem detect_app_priority_witness:
  "detect_app [\<lparr>filename = ''exports/ps_sales.sql'', payload = ''s''\<rparr>,
               \<lparr>filename = ''exports/ps_crm.sql'', payload = ''c''\<rparr>] = Some ''crm''
   \<and> resolve_app (Some ''sales'') [\<lparr>filename = ''exports/ps_crm.sql'', payload = ''c''\<rparr>]
       = Some ''sales''"
  using detect_app_priority
    [of "[\<lparr>filename = ''exports/ps_sales.sql'', payload = ''s''\<rparr>,
          \<lparr>filename = ''exports/ps_crm.sql'', payload = ''c''\<rparr>]" "''sales''"]
    detect_app_priority
    [of "[\<lparr>filename = ''exports/ps_crm.sql'', payload = ''c''\<rparr>]" "''sales''"]
  by (simp add: namelist_def CRM_EXPORT_MARKER_def SALES_EXPORT_MARKER_def)

text \<open>
  C8, as the code has it. Path resolution raises in one case only: a non-empty override whose
  first component starts with a tilde that \<^verbatim>\<open>expanduser\<close> cannot resolve
  (\<^verbatim>\<open>RuntimeError\<close>). Otherwise it is a fallback chain that never looks at the file
  system. For crm the data directory is the non-empty override (with its home directory
  expanded), else \<^verbatim>\<open>APP_STORAGE_DIR\<close> if set, else the platform default; the database
  path is \<^verbatim>\<open>DB_PATH\<close> if set, else \<^verbatim>\<open>ps_crm.db\<close> in the data directory. For sales
  the data directory is the non-empty override, else the configured directory; the database
  path comes from a non-empty \<^verbatim>\<open>PS_SALES_DB_URL\<close>, without a leading
  \<^verbatim>\<open>sqlite:///\<close>, else it is \<^verbatim>\<open>ps_sales.db\<close> in the data directory. An empty override
  counts as none.
\<close>

theorem path_resolution_fallback:
  "(crm_paths P ovr = Inl e \<longleftrightarrow>
      (\<exists>s. ovr = Some s \<and> s \<noteq> '''' \<and> expanduser P (Path s) = Inl e))
   \<and> (sales_paths P ovr = Inl e \<longleftrightarrow>
      (\<exists>s. ovr = Some s \<and> s \<noteq> '''' \<and> expanduser P (Path s) = Inl e))
   \<and> (expanduser P p = Inl e \<longleftrightarrow>
        e = RuntimeError \<and> \<not> is_rooted p \<and> p \<noteq> [] \<and> take 1 (hd p) = ''~''
        \<and> take 1 (os_expanduser P (hd p)) = ''~'')
   \<and> (is_rooted p \<or> p = [] \<or> take 1 (hd p) \<noteq> ''~'' \<longrightarrow> expanduser P p = Inr p)
   \<and> (crm_paths P ovr = Inr (d, db) \<longrightarrow>
        (\<forall>s. ovr = Some s \<and> s \<noteq> '''' \<longrightarrow> expanduser P (Path s) = Inr d)
        \<and> (ovr = None \<or> ovr = Some '''' \<longrightarrow>
             d = (case environ P ''APP_STORAGE_DIR'' of
                    Some v \<Rightarrow> Path v
                  | None \<Rightarrow> Path (get_storage_dir P)))
        \<and> db = (case environ P ''DB_PATH'' of
                   Some v \<Rightarrow> Path v
                 | None \<Rightarrow> d @ [''ps_crm.db'']))
   \<and> (sales_paths P ovr = Inr (d, db) \<longrightarrow>
        (\<forall>s. ovr = Some s \<and> s \<noteq> '''' \<longrightarrow> expanduser P (Path s) = Inr d)
        \<and> (ovr = None \<or> ovr = Some '''' \<longrightarrow> d = config_data_dir P)
        \<and> db = (case environ P ''PS_SALES_DB_URL'' of
                   Some u \<Rightarrow> if u = '''' then d @ [''ps_sales.db'']
                             else if prefix ''sqlite:///'' u then Path (drop (length ''sqlite:///'') u)
                             else Path u
                 | None \<Rightarrow> d @ [''ps_sales.db'']))"
proof -
  have crm_raise: "crm_paths P ovr = Inl e \<longleftrightarrow>
      (\<exists>s. ovr = Some s \<and> s \<noteq> '''' \<and> expanduser P (Path s) = Inl e)"
    by (auto simp: crm_paths_def split: option.splits sum.splits)
  have sales_raise: "sales_paths P ovr = Inl e \<longleftrightarrow>
      (\<exists>s. ovr = Some s \<and> s \<noteq> '''' \<and> expanduser P (Path s) = Inl e)"
    by (auto simp: sales_paths_def Let_def split: option.splits sum.splits)
  have crm: "(\<forall>s. ovr = Some s \<and> s \<noteq> '''' \<longrightarrow> expanduser P (Path s) = Inr d)
        \<and> (ovr = None \<or> ovr = Some '''' \<longrightarrow>
             d = (case environ P ''APP_STORAGE_DIR'' of
                    Some v \<Rightarrow> Path v
                  | None \<Rightarrow> Path (get_storage_dir P)))
        \<and> db = (case environ P ''DB_PATH'' of
                   Some v \<Rightarrow> Path v
                 | None \<Rightarrow> d @ [''ps_crm.db''])"
    if r: "crm_paths P ovr = Inr (d, db)"
  proof -
    have wf: "wf_path d"
      using r wf_path_Path wf_path_expanduser [OF wf_path_Path]
      by (auto simp: crm_paths_def split: option.splits sum.splits if_splits)
    have "db = Path (getenv P ''DB_PATH'' (str_path (joinpath d (Path ''ps_crm.db''))))"
      using r by (auto simp: crm_paths_def split: option.splits sum.splits if_splits)
    then have "db = (case environ P ''DB_PATH'' of
                   Some v \<Rightarrow> Path v
                 | None \<Rightarrow> d @ [''ps_crm.db''])"
      using crm_default_db [OF wf] by (simp add: getenv_def split: option.splits)
    moreover have "\<forall>s. ovr = Some s \<and> s \<noteq> '''' \<longrightarrow> expanduser P (Path s) = Inr d"
      using r by (auto simp: crm_paths_def split: option.splits sum.splits if_splits)
    moreover have "ovr = None \<or> ovr = Some '''' \<longrightarrow>
             d = (case environ P ''APP_STORAGE_DIR'' of
                    Some v \<Rightarrow> Path v
                  | None \<Rightarrow> Path (get_storage_dir P))"
      using r by (auto simp: crm_paths_def getenv_def split: option.splits sum.splits if_splits)
    ultimately show ?thesis by blast
  qed
  have sales: "(\<forall>s. ovr = Some s \<and> s \<noteq> '''' \<longrightarrow> expanduser P (Path s) = Inr d)
        \<and> (ovr = None \<or> ovr = Some '''' \<longrightarrow> d = config_data_dir P)
        \<and> db = (case environ P ''PS_SALES_DB_URL'' of
                   Some u \<Rightarrow> if u = '''' then d @ [''ps_sales.db'']
                             else if prefix ''sqlite:///'' u then Path (drop (length ''sqlite:///'') u)
                             else Path u
                 | None \<Rightarrow> d @ [''ps_sales.db''])"
    if r: "sales_paths P ovr = Inr (d, db)"
    using r by (auto simp: sales_paths_def getenv_def Let_def split: option.splits sum.splits if_splits)
  show ?thesis
    using crm_raise sales_raise crm sales expanduser_Inl [of P p e] expanduser_plain [of p P]
    by blast
qed

theorem path_resolution_fallback_witness:
  "crm_paths ex_platform (Some ''/srv/crm'')
     = Inr ([''/'', ''srv'', ''crm''], [''/'', ''srv'', ''crm'', ''ps_crm.db''])
   \<and> expanduser ex_platform (Path ''/srv/crm'') = Inr [''/'', ''srv'', ''crm'']
   \<and> environ ex_platform ''DB_PATH'' = None"
proof -
  have e: "crm_paths ex_platform (Some ''/srv/crm'')
     = Inr ([''/'', ''srv'', ''crm''], [''/'', ''srv'', ''crm'', ''ps_crm.db''])"
    by code_simp
  have n: "environ ex_platform ''DB_PATH'' = None" by (simp add: ex_platform_def)
  have s: "''/srv/crm'' \<noteq> ''''" by simp
  from path_resolution_fallback
    [of ex_platform "Some ''/srv/crm''" RuntimeError "[]"
        "[''/'', ''srv'', ''crm'']" "[''/'', ''srv'', ''crm'', ''ps_crm.db'']"]
  have "crm_paths ex_platform (Some ''/srv/crm'')
          = Inr ([''/'', ''srv'', ''crm''], [''/'', ''srv'', ''crm'', ''ps_crm.db'']) \<longrightarrow>
        (\<forall>s. Some ''/srv/crm'' = Some s \<and> s \<noteq> '''' \<longrightarrow>
             expanduser ex_platform (Path s) = Inr [''/'', ''srv'', ''crm''])"
    by blast
  with e s have "expanduser ex_platform (Path ''/srv/crm'') = Inr [''/'', ''srv'', ''crm'']"
    by blast
  with e n show ?thesis by blast
qed

text \<open>
  C8 as stated fails: with no password entry for the user, an override that starts with
  \<^verbatim>\<open>~ghost\<close> makes path resolution raise.
\<close>

theorem crm_paths_raises:
  "crm_paths ex_platform (Some ''~ghost/data'') = Inl RuntimeError"
  by code_simp

text \<open>
  C4 as stated fails: a valid archive does not make a dry run produce its report. With an
  override of the data directory that starts with the home of an unknown user, path
  resolution raises before the report, and the run ends with \<^verbatim>\<open>RuntimeError\<close> (exit
  status 1) without a line on standard output.
\<close>

theorem dry_run_raises_on_unknown_home:
  "main ex_platform
     (Given \<lparr>opt_backup = Some ''full.zip'', opt_app = None,
             opt_data_dir = Some ''~ghost/x'', opt_dry_run = True\<rparr>) ex_world
   = (Raised RuntimeError, ex_world)"
  by code_simp

text \<open>
  C4, as the code has it. Take a dry run that has come as far as line 111: the command line
  parses, the archive path expands, what lies there opens as a zip archive, and the app is
  given or detected. If the two paths resolve, the run returns 0 and leaves the world as it
  was but for five lines on standard output: the app, the data directory, the database path,
  the number of entry names that start with \<^verbatim>\<open>storage/\<close> (the names of directory entries
  count too), and the list of the entry names that start with \<^verbatim>\<open>database/\<close>. If path
  resolution raises, the run ends with that error and the world is as it was. In both runs
  the file system is the same table afterwards: nothing is extracted, created, changed or
  removed.
\<close>

theorem dry_run_reports_or_raises:
  assumes "opens P c w a A app" and "args_dry_run a"
  shows "main P c w =
     (case app_paths P app (args_data_dir a) of
        Inl e \<Rightarrow> (Raised e, w)
      | Inr (data_dir, db_path) \<Rightarrow>
          (Returned 0,
           w\<lparr>stdout := stdout w @
             [ReportApp app, ReportDataDir data_dir, ReportDatabasePath db_path,
              ReportStorageCount (length (filter (prefix ''storage/'') (namelist A))),
              ReportDatabaseFiles (filter (prefix ''database/'') (namelist A))]\<rparr>))"
  unfolding opens_main [OF assms(1)] opens_restore [OF assms(1)]
  using assms(2)
  by (simp add: and_then_def dry_run_report_result ret_def split: sum.splits)

theorem dry_run_reports_or_raises_witness:
  "main ex_platform (ex_cmdline ''full.zip'' True) ex_world =
     (Returned 0,
      ex_world\<lparr>stdout := stdout ex_world @
        [ReportApp ''crm'', ReportDataDir [''/'', ''data''],
         ReportDatabasePath [''/'', ''data'', ''ps_crm.db''],
         ReportStorageCount 1,
         ReportDatabaseFiles [''database/'', ''database/b.db'', ''database/a.db'',
                              ''database/sub/0.db'', ''database/notes.txt'']]\<rparr>)"
proof -
  have p: "app_paths ex_platform ''crm'' None
      = Inr ([''/'', ''data''], [''/'', ''data'', ''ps_crm.db''])"
    by code_simp
  have s: "length (filter (prefix ''storage/'') (namelist ex_archive)) = 1"
    by code_simp
  have d: "filter (prefix ''database/'') (namelist ex_archive)
      = [''database/'', ''database/b.db'', ''database/a.db'',
         ''database/sub/0.db'', ''database/notes.txt'']"
    by code_simp
  show ?thesis
    using dry_run_reports_or_raises [OF ex_opens_full [of True]]
    by (simp add: p s d)
qed

text \<open>
  C9. If nothing exists at or below the name \<^verbatim>\<open>mkdtemp\<close> picks when the script starts,
  nothing exists at or below it when the script ends, whatever the outcome: a returned
  status, or an error raised during extraction or copying.
\<close>

theorem tempdir_removed_on_every_exit:
  assumes "\<forall>k. prefix (mkdtemp P) k \<longrightarrow> lookup (files w) k = None"
    and "main P c w = (r, w')"
  shows "\<forall>k. prefix (mkdtemp P) k \<longrightarrow> lookup (files w') k = None"
  using main_files [OF assms(2)] assms(1) by auto

theorem tempdir_removed_on_every_exit_witness:
  "fst (main ex_platform (ex_cmdline ''clash.zip'' False) ex_world) = Raised OSError
   \<and> lookup (files (snd (main ex_platform (ex_cmdline ''clash.zip'' False) ex_world)))
         (mkdtemp ex_platform) = None
   \<and> lookup (files (snd (main ex_platform (ex_cmdline ''clash.zip'' False) ex_world)))
         (mkdtemp ex_platform @ [''x'']) = None"
proof -
  have r: "fst (main ex_platform (ex_cmdline ''clash.zip'' False) ex_world) = Raised OSError"
    by code_simp
  have m: "main ex_platform (ex_cmdline ''clash.zip'' False) ex_world =
      (fst (main ex_platform (ex_cmdline ''clash.zip'' False) ex_world),
       snd (main ex_platform (ex_cmdline ''clash.zip'' False) ex_world))"
    by simp
  note T = tempdir_removed_on_every_exit [OF ex_world_fresh m]
  from T have "lookup (files (snd (main ex_platform (ex_cmdline ''clash.zip'' False) ex_world)))
         (mkdtemp ex_platform) = None"
    by (simp only: prefix_order.refl)
  moreover from T have
    "lookup (files (snd (main ex_platform (ex_cmdline ''clash.zip'' False) ex_world)))
         (mkdtemp ex_platform @ [''x'']) = None"
    by (simp only: prefixI)
  ultimately show ?thesis using r by blast
qed

text \<open>
  C6 as stated fails in the direction ``only when'': with an existing archive that carries a
  marker and an app identity on the command line that is not one of the two choices, the
  process still ends with status 2.
\<close>

theorem exit_code_two_on_bad_choice:
  "exit_status (fst (main ex_platform
       (Given \<lparr>opt_backup = Some ''full.zip'', opt_app = Some ''billing'',
               opt_data_dir = None, opt_dry_run = False\<rparr>) ex_world)) = 2
   \<and> path_stat ex_platform (files ex_world) (Path ''full.zip'')
       = Inr (Some (Regular ''zip:full'' 1))
   \<and> detect_app ex_archive = Some ''crm''"
  by code_simp

text \<open>
  C6, as the code has it. The process ends with status 2 exactly when
  \<^item> \<^verbatim>\<open>argparse\<close> rejects the command line, or
  \<^item> the command line parses, the expansion of the archive path succeeds, and \<^verbatim>\<open>stat\<close>
    finds nothing at the expanded path, or
  \<^item> the command line parses, the expansion of the archive path succeeds, the expanded path
    opens as a zip archive, no app identity was given, and the archive holds neither marker.
  In each of these runs the file system and standard output are as before and one message
  has gone to the error stream.
\<close>

theorem exit_code_two:
  "(exit_status (fst (main P c w)) = 2 \<longleftrightarrow>
      parse_args c = Inl 2
      \<or> (\<exists>a ap. parse_args c = Inr a \<and> expanduser P (Path (args_backup a)) = Inr ap
            \<and> (path_stat P (files w) ap = Inr None
                \<or> (\<exists>A. open_zip P ap w = (Inr A, w)
                      \<and> args_app a = None \<and> detect_app A = None))))
   \<and> (exit_status (fst (main P c w)) = 2 \<longrightarrow>
         files (snd (main P c w)) = files w \<and> stdout (snd (main P c w)) = stdout w
         \<and> (\<exists>m. stderr (snd (main P c w)) = stderr w @ [m]))"
proof (cases "parse_args c")
  case (Inl n)
  then show ?thesis by (auto simp: main_def exit_status_def)
next
  case (Inr a)
  obtain r w' where r: "restore P a w = (r, w')" by (cases "restore P a w")
  have m: "main P c w = (case r of Inl e \<Rightarrow> Raised e | Inr n \<Rightarrow> Returned n, w')"
    using Inr r by (simp add: main_def split: sum.splits)
  have s: "exit_status (fst (main P c w)) = 2 \<longleftrightarrow> r = Inr 2"
    unfolding m by (cases r) (simp_all add: exit_status_def)
  have w': "snd (main P c w) = w'" unfolding m by simp
  note A = parse_args_app [OF Inr]
  show ?thesis
    unfolding s w' using restore_status [OF r] Inr resolve_app_None [OF A]
    by auto
qed

theorem exit_code_two_witness:
  "exit_status (fst (main ex_platform (ex_cmdline ''unmarked.zip'' False) ex_world)) = 2
   \<and> files (snd (main ex_platform (ex_cmdline ''unmarked.zip'' False) ex_world))
       = files ex_world
   \<and> exit_status (fst (main ex_platform (ex_cmdline ''nowhere.zip'' False) ex_world)) = 2
   \<and> exit_status (fst (main ex_platform (ex_cmdline ''~ghost/b.zip'' False) ex_world)) \<noteq> 2"
proof -
  have p: "parse_args (ex_cmdline ''unmarked.zip'' False) =
      Inr \<lparr>args_backup = ''unmarked.zip'', args_app = None, args_data_dir = None,
           args_dry_run = False\<rparr>"
    by code_simp
  have x: "expanduser ex_platform (Path ''unmarked.zip'') = Inr [''unmarked.zip'']"
    by code_simp
  have o: "open_zip ex_platform [''unmarked.zip''] ex_world
      = (Inr ex_archive_unmarked, ex_world)"
    by code_simp
  have d: "detect_app ex_archive_unmarked = None" by code_simp
  have "exit_status (fst (main ex_platform (ex_cmdline ''unmarked.zip'' False) ex_world)) = 2"
    using exit_code_two [of ex_platform "ex_cmdline ''unmarked.zip'' False" ex_world]
      p x o d by force
  moreover from this
  have "files (snd (main ex_platform (ex_cmdline ''unmarked.zip'' False) ex_world))
       = files ex_world"
    using exit_code_two [of ex_platform "ex_cmdline ''unmarked.zip'' False" ex_world]
    by blast
  moreover
  have p': "parse_args (ex_cmdline ''nowhere.zip'' False) =
      Inr \<lparr>args_backup = ''nowhere.zip'', args_app = None, args_data_dir = None,
           args_dry_run = False\<rparr>"
    by code_simp
  have x': "expanduser ex_platform (Path ''nowhere.zip'') = Inr [''nowhere.zip'']"
    by code_simp
  have n': "path_stat ex_platform (files ex_world) [''nowhere.zip''] = Inr None"
    by code_simp
  have "exit_status (fst (main ex_platform (ex_cmdline ''nowhere.zip'' False) ex_world)) = 2"
    using exit_code_two [of ex_platform "ex_cmdline ''nowhere.zip'' False" ex_world]
      p' x' n' by force
  moreover
  have p'': "parse_args (ex_cmdline ''~ghost/b.zip'' False) =
      Inr \<lparr>args_backup = ''~ghost/b.zip'', args_app = None, args_data_dir = None,
           args_dry_run = False\<rparr>"
    by code_simp
  have x'': "expanduser ex_platform (Path ''~ghost/b.zip'') = Inl RuntimeError"
    by code_simp
  have "exit_status (fst (main ex_platform (ex_cmdline ''~ghost/b.zip'' False) ex_world)) \<noteq> 2"
    using exit_code_two [of ex_platform "ex_cmdline ''~ghost/b.zip'' False" ex_world]
      p'' x'' by force
  ultimately show ?thesis by blast
qed




end
